theory Spec2Isabelle
  imports Complex_Main "HOL-Library.AList" "HOL-Library.Multiset"
begin

section \<open>Values of the program\<close>

text \<open>
  The program is \<^verbatim>\<open>newcoin_hunter.py\<close>. Its numbers are Python floats and ints. An int is
  an \<open>int\<close>. A float is modelled as a \<open>real\<close>: arithmetic is exact, there is no overflow, no
  infinity and no NaN, and the binary rounding of each operation is left out. What the
  program rounds on purpose (\<^verbatim>\<open>round(x, n)\<close>) is modelled, on the decimal grid.
\<close>

text \<open>A value decoded from the market-data service's JSON: what a raw snapshot is made of.\<close>

datatype json =
    JNull
  | JBool bool
  | JNum real
  | JStr string
  | JList "json list"
  | JObj "(string \<times> json) list"

text \<open>Python truthiness, as \<^verbatim>\<open>x or d\<close>, \<^verbatim>\<open>if x\<close> and \<^verbatim>\<open>not x\<close> read it.\<close>

fun truthy :: "json \<Rightarrow> bool" where
  "truthy JNull = False"
| "truthy (JBool b) = b"
| "truthy (JNum x) = (x \<noteq> 0)"
| "truthy (JStr s) = (s \<noteq> [])"
| "truthy (JList xs) = (xs \<noteq> [])"
| "truthy (JObj kvs) = (kvs \<noteq> [])"

text \<open>
  A formatted string is kept as its pieces: the literal text and the interpolated
  arguments, unrendered (the decimal rendering of a float has no counterpart over the
  reals). \<open>ArgR x\<close> is \<^verbatim>\<open>{x}\<close> for a number, \<open>ArgI i\<close> the same for an int, \<open>ArgF n x\<close> is
  \<^verbatim>\<open>{x:.nf}\<close>, \<open>ArgJ v\<close> is \<^verbatim>\<open>{v}\<close> for a decoded value. A plain string \<open>s\<close> is \<open>plain s\<close>.
\<close>

datatype piece = Lit string | ArgI int | ArgR real | ArgF nat real | ArgJ json

type_synonym pytext = "piece list"

definition plain :: "string \<Rightarrow> pytext" where
  "plain s = [Lit s]"

text \<open>A price cell of an output row: a number, or the empty string \<^verbatim>\<open>""\<close> for "unset".\<close>

datatype cell = Num real | Blank

subsection \<open>Rounding\<close>

text \<open>
  \<^verbatim>\<open>round(x, n)\<close>: the nearest multiple of \<open>10\<^sup>-\<^sup>n\<close>, a tie going to the even one.
\<close>

definition round_half_even :: "real \<Rightarrow> int" where
  "round_half_even x =
     (let f = \<lfloor>x\<rfloor>; d = x - of_int f
      in if d < 1 / 2 then f
         else if 1 / 2 < d then f + 1
         else if even f then f else f + 1)"

definition py_round :: "real \<Rightarrow> nat \<Rightarrow> real" where
  "py_round x n = of_int (round_half_even (x * 10 ^ n)) / 10 ^ n"

section \<open>Data model\<close>

text \<open>
  The dict built by \<^verbatim>\<open>row_from_pair\<close> (the Candidate), with the keys that \<^verbatim>\<open>run_once\<close> adds
  to its copies: \<open>score\<close>, the exit prices (\<open>exits\<close>, by key, in insertion order),
  \<open>rank\<close> and \<open>reject_reason\<close>. A key not yet set is \<open>None\<close> (or the empty list).
  The entries copied from the snapshot unchecked keep the type of a decoded value.
\<close>

record row =
  token_symbol :: json
  chain :: json
  contract_address :: json
  pair_address :: json
  price_usd :: real
  fdv_usd :: real
  lp_usd :: real
  volume_24h_usd :: real
  unique_traders_24h :: int
  buys_24h :: int
  sells_24h :: int
  chg24_pct :: "real option"
  dex :: string
  trade_url :: json
  explorer_url :: pytext
  twitter_url :: json
  telegram_url :: json
  website_url :: json
  age_hours :: "real option"
  score_key :: "real option"
  exits :: "(string \<times> cell) list"
  rank :: "int option"
  reject_reason :: "pytext option"

text \<open>The threshold dict \<^verbatim>\<open>cfg\<close> of a pass.\<close>

record gate_config =
  max_age_h :: real
  min_lp :: real
  max_lp :: real
  max_fdv :: real
  min_traders_24h :: int
  min_vliq :: real
  require_social :: bool

definition DISCOVERY :: gate_config where
  "DISCOVERY = \<lparr> max_age_h = 2160, min_lp = 3000, max_lp = 2000000, max_fdv = 20000000,
                 min_traders_24h = 4, min_vliq = 0.10, require_social = False \<rparr>"

definition REFINE :: gate_config where
  "REFINE = \<lparr> max_age_h = 504, min_lp = 6000, max_lp = 1500000, max_fdv = 12000000,
              min_traders_24h = 8, min_vliq = 0.15, require_social = True \<rparr>"

section \<open>Gate evaluator\<close>

text \<open>The constant \<^verbatim>\<open>1e-9\<close> added to the liquidity before dividing.\<close>

definition eps :: real where
  "eps = 1 / 10 ^ 9"

text \<open>The expression \<^verbatim>\<open>(volume/(lp+1e-9)) if lp>0 else 0.0\<close> of \<^verbatim>\<open>pass_gates\<close> and \<^verbatim>\<open>add_exit_prices\<close>.\<close>

definition vliq_of :: "real \<Rightarrow> real \<Rightarrow> real" where
  "vliq_of vol lp = (if lp > 0 then vol / (lp + eps) else 0)"

definition pass_gates :: "row \<Rightarrow> gate_config \<Rightarrow> bool \<times> pytext" where
  "pass_gates r cfg =
     (if (case age_hours r of None \<Rightarrow> False | Some age \<Rightarrow> age > max_age_h cfg)
      then (False, [Lit ''age>'', ArgR (max_age_h cfg), Lit ''h''])
      else let lp = lp_usd r in
      if \<not> (min_lp cfg \<le> lp \<and> lp \<le> max_lp cfg)
      then (False, [Lit ''lp$'', ArgF 0 lp, Lit '' outside ['', ArgR (min_lp cfg),
                    Lit '','', ArgR (max_lp cfg), Lit '']''])
      else let fdv = fdv_usd r in
      if fdv > 0 \<and> fdv > max_fdv cfg
      then (False, [Lit ''fdv>'', ArgR (max_fdv cfg)])
      else let traders = unique_traders_24h r in
      if traders < min_traders_24h cfg
      then (False, [Lit ''traders24h<'', ArgI (min_traders_24h cfg)])
      else let vliq = vliq_of (volume_24h_usd r) lp in
      if vliq < min_vliq cfg
      then (False, [Lit ''vliq<'', ArgF 2 (min_vliq cfg)])
      else if require_social cfg
              \<and> \<not> (truthy (twitter_url r) \<or> truthy (telegram_url r) \<or> truthy (website_url r))
      then (False, plain ''no_socials'')
      else (True, plain ''''))"

section \<open>Scorer\<close>

text \<open>The four terms of \<^verbatim>\<open>score\<close>, named as its local variables are.\<close>

definition score_vliq :: "real \<Rightarrow> real \<Rightarrow> real" where
  "score_vliq vol lp = (if lp > 0 then min (vol / (lp + eps)) 5 / 5 else 0)"

definition tnorm :: "int \<Rightarrow> real" where
  "tnorm traders = min (of_int traders / 1500) 1"

definition fdv_ok :: "real \<Rightarrow> real" where
  "fdv_ok fdv =
     (if 0 < fdv \<and> fdv \<le> 3000000 then 1
      else (if fdv \<le> 6000000 then 0.85
            else if fdv \<le> 10000000 then 0.7
            else if fdv \<le> 15000000 then 0.5
            else 0))"

definition age_ok :: "real option \<Rightarrow> real" where
  "age_ok age =
     (case age of
        None \<Rightarrow> 1
      | Some a \<Rightarrow> (if a \<le> 24 then 1 else if a \<le> 72 then 0.75 else if a \<le> 240 then 0.5 else 0.3))"

text \<open>The buy-pressure test \<^verbatim>\<open>buys + sells >= 10 and buys > max(1, sells)*1.05\<close>.\<close>

definition buy_pressure :: "int \<Rightarrow> int \<Rightarrow> bool" where
  "buy_pressure buys sells \<longleftrightarrow> buys + sells \<ge> 10 \<and> of_int buys > of_int (max 1 sells) * (1.05 :: real)"

definition score :: "row \<Rightarrow> real" where
  "score r =
     (let s = 100 * (0.46 * score_vliq (volume_24h_usd r) (lp_usd r)
                     + 0.29 * tnorm (unique_traders_24h r)
                     + 0.15 * fdv_ok (fdv_usd r)
                     + 0.10 * age_ok (age_hours r));
          s = (if buy_pressure (buys_24h r) (sells_24h r) then s + 2 else s)
      in py_round s 2)"

section \<open>Exit prices\<close>

text \<open>
  The cut of \<^verbatim>\<open>compute_stop_loss\<close>: the variable \<^verbatim>\<open>sl_pct\<close> after its two conditional
  assignments, in the order of the source (22% first, 28% second).
\<close>

definition sl_pct :: "real \<Rightarrow> int \<Rightarrow> real" where
  "sl_pct vliq traders =
     (let p = 0.25;
          p = (if vliq \<ge> 0.30 \<and> traders \<ge> 20 then 0.22 else p);
          p = (if vliq < 0.15 \<or> traders < 8 then 0.28 else p)
      in p)"

definition compute_stop_loss :: "real \<Rightarrow> real \<Rightarrow> int \<Rightarrow> real" where
  "compute_stop_loss price vliq traders =
     (if price \<le> 0 then 0 else py_round (price * (1 - sl_pct vliq traders)) 12)"

text \<open>
  The swing of \<^verbatim>\<open>fib_levels\<close>. The \<^verbatim>\<open>try\<close> catches the division by zero at a change of
  -100%, where the default swing applies too.
\<close>

definition fib_swing :: "real \<Rightarrow> real option \<Rightarrow> real" where
  "fib_swing price chg24 =
     (case chg24 of
        None \<Rightarrow> 0.10 * price
      | Some c \<Rightarrow>
          (if 1 + c / 100 = 0 then 0.10 * price
           else \<bar>price - price / (1 + c / 100)\<bar>))"

definition fib_levels :: "real \<Rightarrow> real option \<Rightarrow> (string \<times> cell) list" where
  "fib_levels price chg24 =
     (if price \<le> 0
      then [(''fib_dn_0382'', Blank), (''fib_dn_0618'', Blank),
            (''fib_up_1618'', Blank), (''fib_up_2618'', Blank)]
      else let swing = fib_swing price chg24;
               dn_382 = max (price - 0.382 * swing) 0;
               dn_618 = max (price - 0.618 * swing) 0;
               up_1618 = price + 1.618 * swing;
               up_2618 = price + 2.618 * swing
           in [(''fib_dn_0382'', Num (py_round dn_382 12)),
               (''fib_dn_0618'', Num (py_round dn_618 12)),
               (''fib_up_1618'', Num (py_round up_1618 12)),
               (''fib_up_2618'', Num (py_round up_2618 12))])"

text \<open>\<^verbatim>\<open>int(x)\<close> of a float: truncation towards zero.\<close>

definition py_int :: "real \<Rightarrow> int" where
  "py_int x = (if 0 \<le> x then \<lfloor>x\<rfloor> else \<lceil>x\<rceil>)"

text \<open>The decimal text of an int, as an f-string renders it.\<close>

fun digits :: "nat \<Rightarrow> string" where
  "digits n =
     (if n < 10 then [char_of (48 + n)]
      else digits (n div 10) @ [char_of (48 + n mod 10)])"

declare digits.simps [simp del]

definition str_int :: "int \<Rightarrow> string" where
  "str_int i = (if i < 0 then CHR ''-'' # digits (nat (- i)) else digits (nat i))"

text \<open>
  \<^verbatim>\<open>add_exit_prices\<close> builds the dict \<^verbatim>\<open>out\<close>, here an association list in insertion
  order; \<^verbatim>\<open>out[k] = v\<close> is \<open>AList.update k v\<close> (a key already there keeps its place) and
  \<^verbatim>\<open>out.update(d)\<close> assigns the entries of \<open>d\<close> in turn. The row's price and valuation are
  floats already, so \<^verbatim>\<open>float(x or 0)\<close> returns them as they are.
\<close>

definition dict_update :: "(string \<times> cell) list \<Rightarrow> (string \<times> cell) list \<Rightarrow> (string \<times> cell) list" where
  "dict_update d other = fold (\<lambda>(k, v) acc. AList.update k v acc) other d"

definition add_exit_prices :: "row \<Rightarrow> real list \<Rightarrow> real list \<Rightarrow> (string \<times> cell) list" where
  "add_exit_prices r tp_multipliers fdv_targets =
     (let price = price_usd r;
          fdv = fdv_usd r;
          out = fold (\<lambda>m acc. AList.update (''tp'' @ str_int (py_int m) @ ''x_price'')
                                 (if price > 0 then Num (py_round (price * m) 12) else Blank) acc)
                     tp_multipliers [];
          out = (if price > 0 \<and> fdv > 0
                 then fold (\<lambda>T acc. AList.update (''fdv'' @ str_int (py_int (T / 1000000)) @ ''m_price'')
                                       (Num (py_round (price * (T / fdv)) 12)) acc)
                           fdv_targets out
                 else fold (\<lambda>T acc. AList.update (''fdv'' @ str_int (py_int (T / 1000000)) @ ''m_price'')
                                       Blank acc)
                           fdv_targets out);
          vliq = vliq_of (volume_24h_usd r) (lp_usd r);
          out = AList.update ''stop_loss_price''
                  (Num (compute_stop_loss price vliq (unique_traders_24h r))) out
      in dict_update out (fib_levels price (chg24_pct r)))"

section \<open>Funnel: one pass\<close>

text \<open>
  The first loop of \<^verbatim>\<open>run_once\<close>: each row is copied, and the copy goes to \<^verbatim>\<open>items\<close> with
  its score and exit prices, or to \<^verbatim>\<open>rejects\<close> with the reason.
\<close>

definition scored :: "real list \<Rightarrow> real list \<Rightarrow> row \<Rightarrow> row" where
  "scored tp_multipliers fdv_targets r =
     (let rr = r\<lparr>score_key := Some (score r)\<rparr>
      in rr\<lparr>exits := dict_update (exits rr) (add_exit_prices rr tp_multipliers fdv_targets)\<rparr>)"

definition gate_step :: "gate_config \<Rightarrow> real list \<Rightarrow> real list \<Rightarrow> row
                          \<Rightarrow> row list \<times> row list \<Rightarrow> row list \<times> row list" where
  "gate_step cfg tp_multipliers fdv_targets r acc =
     (case acc of (items, rejects) \<Rightarrow>
        (case pass_gates r cfg of (ok, why) \<Rightarrow>
           if ok then (items @ [scored tp_multipliers fdv_targets r], rejects)
           else (items, rejects @ [r\<lparr>reject_reason := Some why\<rparr>])))"

text \<open>
  \<^verbatim>\<open>xs[:target]\<close>: the first \<open>target\<close> elements, and for a negative \<open>target\<close> all but the
  last \<open>-target\<close>.
\<close>

definition py_slice_to :: "'a list \<Rightarrow> int \<Rightarrow> 'a list" where
  "py_slice_to xs target =
     (if 0 \<le> target then take (nat target) xs
      else take (length xs - nat (- target)) xs)"

text \<open>\<^verbatim>\<open>for i, it in enumerate(items, start=i): it["rank"] = i\<close>.\<close>

fun assign_ranks :: "int \<Rightarrow> row list \<Rightarrow> row list" where
  "assign_ranks i [] = []"
| "assign_ranks i (it # items) = it\<lparr>rank := Some i\<rparr> # assign_ranks (i + 1) items"

text \<open>
  \<^verbatim>\<open>sorted(items, key=lambda x: x["score"], reverse=True)\<close> is the stable sort by
  descending score: \<^verbatim>\<open>reverse=True\<close> keeps equal keys in their original order. A stable
  sort has one result only, so the insertion sort \<open>sort_key\<close> on the negated key gives it.
  Every item carries the key \<^verbatim>\<open>"score"\<close>, set in the loop.
\<close>

definition sorted_desc :: "row list \<Rightarrow> row list" where
  "sorted_desc items = sort_key (\<lambda>x. - the (score_key x)) items"

text \<open>
  \<^verbatim>\<open>run_once\<close> returns \<^verbatim>\<open>items\<close> and writes \<^verbatim>\<open>items\<close> and \<^verbatim>\<open>rejects\<close> as tables; the
  model returns both lists. The files and the HTML page are not modelled.
\<close>

definition run_once :: "row list \<Rightarrow> gate_config \<Rightarrow> int \<Rightarrow> real list \<Rightarrow> real list
                         \<Rightarrow> row list \<times> row list" where
  "run_once rows cfg target tp_multipliers fdv_targets =
     (case fold (gate_step cfg tp_multipliers fdv_targets) rows ([], []) of
        (items, rejects) \<Rightarrow>
          (assign_ranks 1 (py_slice_to (sorted_desc items) target), rejects))"

section \<open>Record normaliser\<close>

text \<open>
  The exceptions of the normaliser, as values. \<open>FetchError\<close> stands for whatever the network
  client \<^verbatim>\<open>fetch_pairs_for_chain\<close> raises.
\<close>

datatype error = AttributeError | TypeError | ValueError | FetchError

definition bind_err :: "error + 'a \<Rightarrow> ('a \<Rightarrow> error + 'b) \<Rightarrow> error + 'b" where
  "bind_err m f = (case m of Inl e \<Rightarrow> Inl e | Inr x \<Rightarrow> f x)"

text \<open>\<^verbatim>\<open>x or d\<close>.\<close>

definition py_or :: "json \<Rightarrow> json \<Rightarrow> json" where
  "py_or x d = (if truthy x then x else d)"

text \<open>
  \<^verbatim>\<open>d.get(k)\<close> and \<^verbatim>\<open>d.get(k, default)\<close>: only a dict has the method; on any other value
  the attribute lookup raises.
\<close>

fun py_get :: "json \<Rightarrow> string \<Rightarrow> error + json" where
  "py_get (JObj kvs) k = Inr (case map_of kvs k of None \<Rightarrow> JNull | Some v \<Rightarrow> v)"
| "py_get _ k = Inl AttributeError"

fun py_get_default :: "json \<Rightarrow> string \<Rightarrow> json \<Rightarrow> error + json" where
  "py_get_default (JObj kvs) k d = Inr (case map_of kvs k of None \<Rightarrow> d | Some v \<Rightarrow> v)"
| "py_get_default _ k d = Inl AttributeError"

subsection \<open>Numbers from text\<close>

text \<open>
  \<^verbatim>\<open>float(s)\<close> and \<^verbatim>\<open>int(s)\<close> on a string, for ASCII text: surrounding whitespace is
  stripped, one sign is allowed, an underscore may stand between two digits, a float has
  digits with an optional point and an optional exponent. The words \<^verbatim>\<open>inf\<close> and \<^verbatim>\<open>nan\<close>
  denote floats that are not reals and are outside the model, as are non-ASCII digits.
\<close>

definition is_space :: "char \<Rightarrow> bool" where
  "is_space c \<longleftrightarrow> (of_char c :: nat) \<in> {9, 10, 11, 12, 13, 28, 29, 30, 31, 32}"

definition strip :: "string \<Rightarrow> string" where
  "strip s = rev (dropWhile is_space (rev (dropWhile is_space s)))"

definition is_digit :: "char \<Rightarrow> bool" where
  "is_digit c \<longleftrightarrow> 48 \<le> (of_char c :: nat) \<and> (of_char c :: nat) \<le> 57"

definition nat_of_digits :: "string \<Rightarrow> nat" where
  "nat_of_digits s = foldl (\<lambda>acc c. 10 * acc + (of_char c - 48)) 0 s"

fun underscores_ok :: "char option \<Rightarrow> string \<Rightarrow> bool" where
  "underscores_ok prev [] = True"
| "underscores_ok prev (c # cs) =
     ((c = CHR ''_'' \<longrightarrow>
         (case prev of None \<Rightarrow> False | Some p \<Rightarrow> is_digit p)
         \<and> (case cs of [] \<Rightarrow> False | d # _ \<Rightarrow> is_digit d))
      \<and> underscores_ok (Some c) cs)"

definition parse_sign :: "string \<Rightarrow> bool \<times> string" where
  "parse_sign s =
     (case s of
        [] \<Rightarrow> (False, [])
      | c # t \<Rightarrow> if c = CHR ''-'' then (True, t)
                 else if c = CHR ''+'' then (False, t)
                 else (False, s))"

text \<open>The text before the first separator, and the text after it when there is one.\<close>

definition split_first :: "string \<Rightarrow> string \<Rightarrow> string \<times> string option" where
  "split_first seps s =
     (takeWhile (\<lambda>c. c \<notin> set seps) s,
      case dropWhile (\<lambda>c. c \<notin> set seps) s of [] \<Rightarrow> None | _ # t \<Rightarrow> Some t)"

definition float_of_string :: "string \<Rightarrow> real option" where
  "float_of_string s0 =
     (let s = strip s0 in
      if \<not> underscores_ok None s then None
      else
        (case parse_sign (filter (\<lambda>c. c \<noteq> CHR ''_'') s) of (neg, u) \<Rightarrow>
        (case split_first ''eE'' u of (mant, ex) \<Rightarrow>
        (case split_first ''.'' mant of (ip, fp) \<Rightarrow>
          (let fr = (case fp of None \<Rightarrow> [] | Some f \<Rightarrow> f) in
           if \<not> (list_all is_digit ip \<and> list_all is_digit fr \<and> (ip \<noteq> [] \<or> fr \<noteq> [])) then None
           else
             (let m = real (nat_of_digits ip) + real (nat_of_digits fr) / 10 ^ length fr;
                  m = (if neg then - m else m)
              in (case ex of
                    None \<Rightarrow> Some m
                  | Some e \<Rightarrow>
                      (case parse_sign e of (eneg, ed) \<Rightarrow>
                         if ed = [] \<or> \<not> list_all is_digit ed then None
                         else Some (if eneg then m / 10 ^ nat_of_digits ed
                                    else m * 10 ^ nat_of_digits ed)))))))))"

definition int_of_string :: "string \<Rightarrow> int option" where
  "int_of_string s0 =
     (let s = strip s0 in
      if \<not> underscores_ok None s then None
      else
        (case parse_sign (filter (\<lambda>c. c \<noteq> CHR ''_'') s) of (neg, u) \<Rightarrow>
           if u = [] \<or> \<not> list_all is_digit u then None
           else Some (if neg then - int (nat_of_digits u) else int (nat_of_digits u))))"

text \<open>\<^verbatim>\<open>float(v)\<close> and \<^verbatim>\<open>int(v)\<close> on a decoded value.\<close>

fun py_float :: "json \<Rightarrow> error + real" where
  "py_float JNull = Inl TypeError"
| "py_float (JBool b) = Inr (if b then 1 else 0)"
| "py_float (JNum x) = Inr x"
| "py_float (JStr s) = (case float_of_string s of None \<Rightarrow> Inl ValueError | Some x \<Rightarrow> Inr x)"
| "py_float (JList xs) = Inl TypeError"
| "py_float (JObj kvs) = Inl TypeError"

fun py_int_of :: "json \<Rightarrow> error + int" where
  "py_int_of JNull = Inl TypeError"
| "py_int_of (JBool b) = Inr (if b then 1 else 0)"
| "py_int_of (JNum x) = Inr (py_int x)"
| "py_int_of (JStr s) = (case int_of_string s of None \<Rightarrow> Inl ValueError | Some i \<Rightarrow> Inr i)"
| "py_int_of (JList xs) = Inl TypeError"
| "py_int_of (JObj kvs) = Inl TypeError"

subsection \<open>Labels and links\<close>

definition lower_char :: "char \<Rightarrow> char" where
  "lower_char c =
     (let n = (of_char c :: nat) in if 65 \<le> n \<and> n \<le> 90 then char_of (n + 32) else c)"

text \<open>\<^verbatim>\<open>(x or "").lower()\<close>: a truthy value that is not a string has no such method.\<close>

definition lower_of :: "json \<Rightarrow> error + string" where
  "lower_of x =
     (case py_or x (JStr '''') of JStr s \<Rightarrow> Inr (map lower_char s) | _ \<Rightarrow> Inl AttributeError)"

text \<open>\<^verbatim>\<open>sub in s\<close> for strings.\<close>

fun contains :: "string \<Rightarrow> string \<Rightarrow> bool" where
  "contains sub [] = (sub = [])"
| "contains sub (c # cs) = (take (length sub) (c # cs) = sub \<or> contains sub cs)"

definition dex_table :: "(string \<times> string) list" where
  "dex_table =
     [(''raydium'', ''Raydium (Solana)''), (''orca'', ''Orca (Solana)''),
      (''meteora'', ''Meteora (Solana)''), (''lifinity'', ''Lifinity (Solana)''),
      (''phoenix'', ''Phoenix (Solana)''), (''uniswapv3'', ''Uniswap v3''),
      (''aerodrome'', ''Aerodrome (Base)''), (''baseswap'', ''BaseSwap (Base)''),
      (''pancakeswap-v3'', ''PancakeSwap v3'')]"

definition dex_name :: "json \<Rightarrow> json \<Rightarrow> error + string" where
  "dex_name dex_id chain_id =
     bind_err (lower_of dex_id) (\<lambda>d.
     bind_err (lower_of chain_id) (\<lambda>c.
       Inr (case map_of dex_table d of
              Some name \<Rightarrow> name
            | None \<Rightarrow>
                if contains ''solana'' c then ''Solana DEX''
                else if contains ''base'' c then ''Base DEX''
                else if contains ''eth'' c then ''Ethereum DEX''
                else ''DEX'')))"

text \<open>
  The function \<^verbatim>\<open>explorer_url\<close> of the source (the row has a key of that name). The
  address is interpolated as it is.
\<close>

definition make_explorer_url :: "json \<Rightarrow> json \<Rightarrow> error + pytext" where
  "make_explorer_url chain_id addr =
     (if \<not> truthy addr then Inr (plain '''')
      else bind_err (lower_of chain_id) (\<lambda>c.
        Inr (if contains ''solana'' c then [Lit ''https://solscan.io/token/'', ArgJ addr]
             else if contains ''base'' c then [Lit ''https://basescan.org/token/'', ArgJ addr]
             else if contains ''eth'' c then [Lit ''https://etherscan.io/token/'', ArgJ addr]
             else if contains ''bsc'' c then [Lit ''https://bscscan.com/token/'', ArgJ addr]
             else if contains ''arbitrum'' c then [Lit ''https://arbiscan.io/token/'', ArgJ addr]
             else if contains ''polygon'' c then [Lit ''https://polygonscan.com/token/'', ArgJ addr]
             else if contains ''optimism'' c
               then [Lit ''https://optimistic.etherscan.io/token/'', ArgJ addr]
             else if contains ''avax'' c \<or> contains ''avalanche'' c
               then [Lit ''https://snowtrace.io/token/'', ArgJ addr]
             else plain '''')))"

text \<open>
  What a \<^verbatim>\<open>for\<close> loop iterates over: the elements of a list, the characters of a string,
  the keys of a dict; another value is not iterable.
\<close>

fun py_iter :: "json \<Rightarrow> error + json list" where
  "py_iter (JList xs) = Inr xs"
| "py_iter (JStr s) = Inr (map (\<lambda>c. JStr [c]) s)"
| "py_iter (JObj kvs) = Inr (map (\<lambda>kv. JStr (fst kv)) kvs)"
| "py_iter _ = Inl TypeError"

text \<open>One turn of the loop of \<^verbatim>\<open>socials\<close>, on the pair \<^verbatim>\<open>(tw, tg)\<close>.\<close>

definition social_step :: "json \<Rightarrow> json \<times> json \<Rightarrow> error + json \<times> json" where
  "social_step s acc =
     (case acc of (tw, tg) \<Rightarrow>
        bind_err (py_get s ''type'') (\<lambda>ty.
        bind_err (lower_of ty) (\<lambda>t.
        bind_err (py_get s ''url'') (\<lambda>u0.
          let u = py_or u0 (JStr '''');
              tw = (if t = ''twitter'' \<and> \<not> truthy tw then u else tw);
              tg = (if t = ''telegram'' \<and> \<not> truthy tg then u else tg)
          in Inr (tw, tg)))))"

fun social_loop :: "json list \<Rightarrow> json \<times> json \<Rightarrow> error + json \<times> json" where
  "social_loop [] acc = Inr acc"
| "social_loop (s # ss) acc = bind_err (social_step s acc) (social_loop ss)"

definition socials :: "json \<Rightarrow> error + json \<times> json \<times> json" where
  "socials info =
     (case info of
        JObj kvs \<Rightarrow>
          bind_err (py_get info ''socials'') (\<lambda>sv.
          bind_err (py_iter (py_or sv (JList []))) (\<lambda>ss.
          bind_err (social_loop ss (JStr '''', JStr '''')) (\<lambda>acc.
          bind_err (py_get info ''websites'') (\<lambda>wv.
            case py_or wv (JList []) of
              JList (w # ws) \<Rightarrow>
                bind_err (py_get w ''url'') (\<lambda>u. Inr (fst acc, snd acc, py_or u (JStr '''')))
            | _ \<Rightarrow> Inr (fst acc, snd acc, JStr '''')))))
      | _ \<Rightarrow> Inr (JStr '''', JStr '''', JStr ''''))"

subsection \<open>Creation time and age\<close>

definition some_float :: "json \<Rightarrow> error + real option" where
  "some_float v = bind_err (py_float v) (\<lambda>x. Inr (Some x))"

definition pick_created_ms :: "json \<Rightarrow> error + real option" where
  "pick_created_ms pair =
     bind_err (py_get pair ''info'') (\<lambda>i0. let info = py_or i0 (JObj []) in
     bind_err (py_get pair ''liquidity'') (\<lambda>l0. let liq = py_or l0 (JObj []) in
     bind_err (py_get pair ''pairCreatedAt'') (\<lambda>a. if truthy a then some_float a else
     bind_err (py_get pair ''createdAt'') (\<lambda>b. if truthy b then some_float b else
     bind_err (py_get info ''createdAt'') (\<lambda>v. if truthy v then some_float v else
     bind_err (py_get info ''listedAt'') (\<lambda>v. if truthy v then some_float v else
     bind_err (py_get liq ''createdAt'') (\<lambda>v. if truthy v then some_float v else
       Inr None)))))))"

text \<open>\<open>now_ms\<close> is \<^verbatim>\<open>time.time()*1000\<close>, what the clock reads when the row is normalised.\<close>

definition age_hours_from_ms :: "real \<Rightarrow> real option \<Rightarrow> real option" where
  "age_hours_from_ms now_ms ms =
     (case ms of
        None \<Rightarrow> None
      | Some m \<Rightarrow>
          let age_h = (now_ms - m) / 3600000
          in if age_h > 24 * 365 * 5 then None else Some (max 0 age_h))"

subsection \<open>The row of a snapshot\<close>

text \<open>
  \<^verbatim>\<open>row_from_pair\<close>, statement by statement and then the dict literal entry by entry, so
  that the first exception raised is the one returned.
\<close>

definition row_from_pair :: "real \<Rightarrow> json \<Rightarrow> error + row" where
  "row_from_pair now_ms p =
     bind_err (py_get p ''baseToken'') (\<lambda>b0. let base = py_or b0 (JObj []) in
     bind_err (py_get p ''info'') (\<lambda>i0. let info = py_or i0 (JObj []) in
     bind_err (py_get p ''liquidity'') (\<lambda>l0. let liq = py_or l0 (JObj []) in
     bind_err (py_get p ''txns'') (\<lambda>t0.
     bind_err (py_get (py_or t0 (JObj [])) ''h24'') (\<lambda>t1. let txns = py_or t1 (JObj []) in
     bind_err (py_get p ''volume'') (\<lambda>v0.
     bind_err (py_get (py_or v0 (JObj [])) ''h24'') (\<lambda>v1. let vol24 = py_or v1 (JNum 0) in
     bind_err (py_get p ''priceChange'') (\<lambda>c0.
     bind_err (py_get (py_or c0 (JObj [])) ''h24'') (\<lambda>chg24.
     bind_err (py_get_default txns ''buys'' (JNum 0)) (\<lambda>bv.
     bind_err (py_int_of bv) (\<lambda>buys.
     bind_err (py_get_default txns ''sells'' (JNum 0)) (\<lambda>sv.
     bind_err (py_int_of sv) (\<lambda>sells.
     let traders = buys + sells in
     bind_err (pick_created_ms p) (\<lambda>ms. let age_h = age_hours_from_ms now_ms ms in
     bind_err (socials info) (\<lambda>soc.
     bind_err (py_get p ''priceUsd'') (\<lambda>pv.
     bind_err (py_float (py_or pv (JNum 0))) (\<lambda>price.
     bind_err (py_get p ''fdv'') (\<lambda>fv.
     bind_err (py_float (py_or fv (JNum 0))) (\<lambda>fdv.
     bind_err (py_get (py_or liq (JObj [])) ''usd'') (\<lambda>lv.
     bind_err (py_float (py_or lv (JNum 0))) (\<lambda>lp.
     bind_err (py_get base ''symbol'') (\<lambda>sym.
     bind_err (py_get p ''chainId'') (\<lambda>chain_id.
     bind_err (py_get base ''address'') (\<lambda>addr.
     bind_err (py_get p ''pairAddress'') (\<lambda>pair_addr.
     bind_err (py_float (py_or vol24 (JNum 0))) (\<lambda>vol.
     bind_err (if chg24 = JNull \<or> chg24 = JStr '''' then Inr None else some_float chg24) (\<lambda>chg.
     bind_err (py_get p ''dexId'') (\<lambda>dex_id.
     bind_err (dex_name dex_id chain_id) (\<lambda>dx.
     bind_err (py_get p ''url'') (\<lambda>url.
     bind_err (make_explorer_url chain_id addr) (\<lambda>ex.
       Inr \<lparr> token_symbol = py_or sym (JStr ''''),
             chain = py_or chain_id (JStr ''''),
             contract_address = addr,
             pair_address = pair_addr,
             price_usd = price,
             fdv_usd = fdv,
             lp_usd = lp,
             volume_24h_usd = vol,
             unique_traders_24h = traders,
             buys_24h = buys,
             sells_24h = sells,
             chg24_pct = chg,
             dex = dx,
             trade_url = py_or url (JStr ''''),
             explorer_url = ex,
             twitter_url = fst soc,
             telegram_url = fst (snd soc),
             website_url = snd (snd soc),
             age_hours = map_option (\<lambda>a. py_round a 2) age_h,
             score_key = None, exits = [], rank = None, reject_reason = None \<rparr>
     )))))))))))))))))))))))))))))))"

section \<open>Funnel: the two passes\<close>

text \<open>
  \<^verbatim>\<open>rows.extend(row_from_pair(p) for p in pairs)\<close> inside \<^verbatim>\<open>try\<close>: the rows are appended one
  by one, and an exception ends the chain's contribution, the rows appended so far staying.
\<close>

fun rows_until_error :: "real \<Rightarrow> json list \<Rightarrow> row list" where
  "rows_until_error now_ms [] = []"
| "rows_until_error now_ms (p # ps) =
     (case row_from_pair now_ms p of
        Inl e \<Rightarrow> []
      | Inr r \<Rightarrow> r # rows_until_error now_ms ps)"

text \<open>
  The loop over the chain queries. \<open>fetch q\<close> is the outcome of
  \<^verbatim>\<open>fetch_pairs_for_chain(q, limit=limit_per_chain)\<close>, the network client: the snapshots, or
  an exception, which is printed and skipped. The clock is read for each row; the time
  that passes during one run is left out, every row getting the same reading \<open>now_ms\<close>.
\<close>

definition collect_rows :: "real \<Rightarrow> (string \<Rightarrow> error + json list) \<Rightarrow> string list \<Rightarrow> row list" where
  "collect_rows now_ms fetch queries =
     fold (\<lambda>q rows. case fetch q of
                      Inl e \<Rightarrow> rows
                    | Inr pairs \<Rightarrow> rows @ rows_until_error now_ms pairs)
          queries []"

text \<open>
  \<^verbatim>\<open>run\<close>: the result is what the two calls of \<^verbatim>\<open>run_once\<close> produce, discovery first.
\<close>

definition run :: "real \<Rightarrow> (string \<Rightarrow> error + json list) \<Rightarrow> string list \<Rightarrow> int \<Rightarrow> int
                    \<Rightarrow> real list \<Rightarrow> real list \<Rightarrow> gate_config \<Rightarrow> gate_config
                    \<Rightarrow> (row list \<times> row list) \<times> (row list \<times> row list)" where
  "run now_ms fetch queries target_disc target_ref tp_multipliers fdv_targets disc_cfg ref_cfg =
     (let rows = collect_rows now_ms fetch queries;
          disc_pass = run_once rows disc_cfg target_disc tp_multipliers fdv_targets;
          disc = fst disc_pass;
          refined_input = (if disc \<noteq> [] then disc else rows)
      in (disc_pass, run_once refined_input ref_cfg target_ref tp_multipliers fdv_targets))"

section \<open>Reference inputs and the specification's wording\<close>

text \<open>
  The candidate of the specification's scenarios: liquidity 5000, valuation 0, 10 traders,
  volume 2000, one hour old, no social link, price 1 with an unknown 24h change.
\<close>

definition scenario_row :: row where
  "scenario_row =
     \<lparr> token_symbol = JStr ''TKN'', chain = JStr ''base'', contract_address = JNull,
       pair_address = JNull, price_usd = 1, fdv_usd = 0, lp_usd = 5000,
       volume_24h_usd = 2000, unique_traders_24h = 10, buys_24h = 5, sells_24h = 5,
       chg24_pct = None, dex = ''DEX'', trade_url = JStr '''', explorer_url = plain '''',
       twitter_url = JStr '''', telegram_url = JStr '''', website_url = JStr '''',
       age_hours = Some 1, score_key = None, exits = [], rank = None,
       reject_reason = None \<rparr>"

text \<open>
  The stop-loss cut in the order the specification gives: the looser 28% rule first, the
  tighter 22% rule after it. To be compared with \<open>sl_pct\<close>, which follows the source.
\<close>

definition sl_pct_spec :: "real \<Rightarrow> int \<Rightarrow> real" where
  "sl_pct_spec vliq traders =
     (let p = 0.25;
          p = (if vliq < 0.15 \<or> traders < 8 then 0.28 else p);
          p = (if vliq \<ge> 0.30 \<and> traders \<ge> 20 then 0.22 else p)
      in p)"

section \<open>Rounding lemmas\<close>

lemma round_half_even_upper: "of_int (round_half_even x) \<le> x + 1 / 2"
  unfolding round_half_even_def Let_def by (auto; linarith)

lemma round_half_even_floor:
  "\<lfloor>x\<rfloor> \<le> round_half_even x \<and> round_half_even x \<le> \<lfloor>x\<rfloor> + 1"
  unfolding round_half_even_def Let_def by auto

lemma round_half_even_mono:
  assumes "x \<le> y"
  shows "round_half_even x \<le> round_half_even y"
proof (cases "\<lfloor>x\<rfloor> = \<lfloor>y\<rfloor>")
  case True
  with assms show ?thesis
    unfolding round_half_even_def Let_def by auto
next
  case False
  with assms have "\<lfloor>x\<rfloor> < \<lfloor>y\<rfloor>"
    by (simp add: floor_mono le_neq_trans)
  then have "\<lfloor>x\<rfloor> + 1 \<le> \<lfloor>y\<rfloor>" by simp
  with round_half_even_floor[of x] round_half_even_floor[of y] show ?thesis
    by linarith
qed

lemma py_round_mono: "x \<le> y \<Longrightarrow> py_round x n \<le> py_round y n"
  unfolding py_round_def by (simp add: round_half_even_mono divide_right_mono)

lemma py_round_upper: "py_round x n \<le> x + 1 / (2 * 10 ^ n)"
proof -
  have "of_int (round_half_even (x * 10 ^ n)) \<le> x * 10 ^ n + 1 / 2"
    by (rule round_half_even_upper)
  then have "of_int (round_half_even (x * 10 ^ n)) / 10 ^ n \<le> (x * 10 ^ n + 1 / 2) / 10 ^ n"
    by (simp add: divide_right_mono)
  then show ?thesis
    unfolding py_round_def by (simp add: add_divide_distrib)
qed

section \<open>The gate\<close>

text \<open>
  C1. For every candidate (its liquidity non-negative, as the data model has it) and every
  gate configuration, the gate passes exactly when the liquidity lies in
  \<open>[min_lp, max_lp]\<close>, the age is null or at most \<open>max_age_h\<close>, the valuation is \<open>\<le> 0\<close> or
  at most \<open>max_fdv\<close>, the traders are at least \<open>min_traders_24h\<close>, the volume-to-liquidity
  ratio (0 at liquidity 0, else volume/(liquidity+1e-9)) is at least \<open>min_vliq\<close>, and a
  social link is present or not required; and a pass returns the empty string as reason.
\<close>

theorem pass_gates_iff:
  assumes "0 \<le> lp_usd r"
  shows "(fst (pass_gates r cfg) \<longleftrightarrow>
            (min_lp cfg \<le> lp_usd r \<and> lp_usd r \<le> max_lp cfg)
          \<and> (age_hours r = None \<or> (\<exists>a. age_hours r = Some a \<and> a \<le> max_age_h cfg))
          \<and> (fdv_usd r \<le> 0 \<or> fdv_usd r \<le> max_fdv cfg)
          \<and> min_traders_24h cfg \<le> unique_traders_24h r
          \<and> min_vliq cfg \<le> (if lp_usd r = 0 then 0
                              else volume_24h_usd r / (lp_usd r + 1 / 10 ^ 9))
          \<and> (\<not> require_social cfg \<or> truthy (twitter_url r) \<or> truthy (telegram_url r)
              \<or> truthy (website_url r)))
       \<and> (fst (pass_gates r cfg) \<longrightarrow> snd (pass_gates r cfg) = plain '''')"
  using assms
  by (cases "age_hours r") (auto simp: pass_gates_def vliq_of_def eps_def Let_def)

theorem pass_gates_iff_witness:
  "0 \<le> lp_usd scenario_row \<and> fst (pass_gates scenario_row DISCOVERY)
   \<and> snd (pass_gates scenario_row DISCOVERY) = plain ''''"
proof -
  have h: "0 \<le> lp_usd scenario_row"
    by (simp add: scenario_row_def)
  show ?thesis
    using h pass_gates_iff [OF h, of DISCOVERY]
    by (simp add: scenario_row_def DISCOVERY_def)
qed

text \<open>
  C3, as the source has it. The scenario candidate passes the default discovery gate. Under
  the default refine configuration it is rejected, but at the liquidity gate, which comes
  before the social one: 5000 is below the refine minimum of 6000, and the reason is the
  liquidity message. The reason is \<open>no_socials\<close> when the social requirement is the only
  change made to the discovery configuration.
\<close>

theorem scenario_gates:
  "pass_gates (r\<lparr>lp_usd := 5000, fdv_usd := 0, unique_traders_24h := 10,
                 volume_24h_usd := 2000, age_hours := Some 1, twitter_url := JStr '''',
                 telegram_url := JStr '''', website_url := JStr ''''\<rparr>) DISCOVERY
     = (True, plain '''')
   \<and> pass_gates (r\<lparr>lp_usd := 5000, fdv_usd := 0, unique_traders_24h := 10,
                 volume_24h_usd := 2000, age_hours := Some 1, twitter_url := JStr '''',
                 telegram_url := JStr '''', website_url := JStr ''''\<rparr>) REFINE
     = (False, [Lit ''lp$'', ArgF 0 5000, Lit '' outside ['', ArgR 6000, Lit '','',
                ArgR 1500000, Lit '']''])
   \<and> pass_gates (r\<lparr>lp_usd := 5000, fdv_usd := 0, unique_traders_24h := 10,
                 volume_24h_usd := 2000, age_hours := Some 1, twitter_url := JStr '''',
                 telegram_url := JStr '''', website_url := JStr ''''\<rparr>)
        (DISCOVERY\<lparr>require_social := True\<rparr>)
     = (False, plain ''no_socials'')"
  by (simp add: pass_gates_def DISCOVERY_def REFINE_def vliq_of_def eps_def Let_def)

theorem scenario_gates_witness:
  "pass_gates scenario_row DISCOVERY = (True, plain '''')
   \<and> fst (pass_gates scenario_row REFINE) = False
   \<and> pass_gates scenario_row (DISCOVERY\<lparr>require_social := True\<rparr>) = (False, plain ''no_socials'')"
  using scenario_gates [of scenario_row]
  by (simp add: scenario_row_def)

text \<open>C3 as stated fails: under the refine configuration the reason is not \<open>no_socials\<close>.\<close>

theorem scenario_refine_counterexample:
  "pass_gates scenario_row REFINE \<noteq> (False, plain ''no_socials'')"
  by (simp add: pass_gates_def REFINE_def scenario_row_def vliq_of_def eps_def Let_def plain_def)

section \<open>The scorer\<close>

lemma score_vliq_ratio: "score_vliq vol lp = min (vliq_of vol lp) 5 / 5"
  by (simp add: score_vliq_def vliq_of_def)

lemma score_vliq_mono:
  "vliq_of v l \<le> vliq_of v' l' \<Longrightarrow> score_vliq v l \<le> score_vliq v' l'"
  by (simp add: score_vliq_ratio min_le_iff_disj)

lemma vliq_of_mono: "v \<le> v' \<Longrightarrow> vliq_of v l \<le> vliq_of v' l"
  by (simp add: vliq_of_def eps_def divide_right_mono)

lemma tnorm_mono: "t \<le> t' \<Longrightarrow> tnorm t \<le> tnorm t'"
  by (simp add: tnorm_def min_le_iff_disj)

lemma buy_pressure_mono: "b \<le> b' \<Longrightarrow> buy_pressure b s \<Longrightarrow> buy_pressure b' s"
  unfolding buy_pressure_def by (auto; linarith)

text \<open>
  C4, as the source has it. The valuation term of the score is a step function of the
  valuation: 1.0 on \<open>(0, 3M]\<close>, 0.85 on \<open>(3M, 6M]\<close>, 0.7 on \<open>(6M, 10M]\<close>, 0.5 on
  \<open>(10M, 15M]\<close>, 0.0 above 15M; a valuation of 0 (unknown) or below is excluded from the
  first tier by the test \<^verbatim>\<open>0<fdv\<close> and gets 0.85. The term enters the score with weight 0.15.
\<close>

theorem fdv_ok_tiers:
  "fdv_ok v = (if v \<le> 0 then 0.85
               else if v \<le> 3000000 then 1
               else if v \<le> 6000000 then 0.85
               else if v \<le> 10000000 then 0.7
               else if v \<le> 15000000 then 0.5
               else 0)
   \<and> score r = py_round (100 * (0.46 * score_vliq (volume_24h_usd r) (lp_usd r)
                                + 0.29 * tnorm (unique_traders_24h r)
                                + 0.15 * fdv_ok (fdv_usd r)
                                + 0.10 * age_ok (age_hours r))
                         + (if buy_pressure (buys_24h r) (sells_24h r) then 2 else 0)) 2"
  by (simp add: fdv_ok_def score_def Let_def)

theorem fdv_ok_tiers_witness:
  "fdv_ok 0 = 0.85 \<and> fdv_ok 1 = 1 \<and> fdv_ok 3000000 = 1 \<and> fdv_ok 6000000 = 0.85
   \<and> fdv_ok 10000000 = 0.7 \<and> fdv_ok 15000000 = 0.5 \<and> fdv_ok 15000001 = 0"
  using fdv_ok_tiers [of 0 scenario_row] fdv_ok_tiers [of 1 scenario_row]
    fdv_ok_tiers [of 3000000 scenario_row] fdv_ok_tiers [of 6000000 scenario_row]
    fdv_ok_tiers [of 10000000 scenario_row] fdv_ok_tiers [of 15000000 scenario_row]
    fdv_ok_tiers [of 15000001 scenario_row]
  by simp

text \<open>C4 as stated fails: a valuation of 0 is not given the tier 1.0.\<close>

theorem fdv_ok_zero_counterexample: "fdv_ok 0 \<noteq> 1"
  by (simp add: fdv_ok_def)

text \<open>
  C5, as the source has it. The score is non-decreasing in the volume-to-liquidity ratio,
  hence in the volume at a fixed liquidity, and in the trader count when the buy and sell
  counts are held fixed; it is also non-decreasing when the trader count \<open>buys + sells\<close>
  grows through the buys.
\<close>

theorem score_monotone:
  "(vliq_of v l \<le> vliq_of v' l' \<longrightarrow>
      score (r\<lparr>volume_24h_usd := v, lp_usd := l\<rparr>)
      \<le> score (r\<lparr>volume_24h_usd := v', lp_usd := l'\<rparr>))
 \<and> (v \<le> v' \<longrightarrow> score (r\<lparr>volume_24h_usd := v\<rparr>) \<le> score (r\<lparr>volume_24h_usd := v'\<rparr>))
 \<and> (t \<le> t' \<longrightarrow>
      score (r\<lparr>unique_traders_24h := t\<rparr>) \<le> score (r\<lparr>unique_traders_24h := t'\<rparr>))
 \<and> (b \<le> b' \<longrightarrow>
      score (r\<lparr>buys_24h := b, unique_traders_24h := b + sells_24h r\<rparr>)
      \<le> score (r\<lparr>buys_24h := b', unique_traders_24h := b' + sells_24h r\<rparr>))"
proof (intro conjI impI)
  assume h: "vliq_of v l \<le> vliq_of v' l'"
  show "score (r\<lparr>volume_24h_usd := v, lp_usd := l\<rparr>)
        \<le> score (r\<lparr>volume_24h_usd := v', lp_usd := l'\<rparr>)"
    using score_vliq_mono[OF h]
    by (auto simp: score_def Let_def intro!: py_round_mono)
next
  assume h: "v \<le> v'"
  show "score (r\<lparr>volume_24h_usd := v\<rparr>) \<le> score (r\<lparr>volume_24h_usd := v'\<rparr>)"
    using score_vliq_mono[OF vliq_of_mono[OF h], of "lp_usd r"]
    by (auto simp: score_def Let_def intro!: py_round_mono)
next
  assume h: "t \<le> t'"
  show "score (r\<lparr>unique_traders_24h := t\<rparr>) \<le> score (r\<lparr>unique_traders_24h := t'\<rparr>)"
    using tnorm_mono[OF h]
    by (auto simp: score_def Let_def intro!: py_round_mono)
next
  assume h: "b \<le> b'"
  then have h': "b + sells_24h r \<le> b' + sells_24h r" by simp
  show "score (r\<lparr>buys_24h := b, unique_traders_24h := b + sells_24h r\<rparr>)
        \<le> score (r\<lparr>buys_24h := b', unique_traders_24h := b' + sells_24h r\<rparr>)"
    using tnorm_mono[OF h'] buy_pressure_mono[OF h, of "sells_24h r"]
    by (auto simp: score_def Let_def intro!: py_round_mono)
qed

theorem score_monotone_witness:
  "vliq_of 1000 5000 \<le> vliq_of 2000 4000
   \<and> score (scenario_row\<lparr>volume_24h_usd := 1000, lp_usd := 5000\<rparr>)
     \<le> score (scenario_row\<lparr>volume_24h_usd := 2000, lp_usd := 4000\<rparr>)
   \<and> score (scenario_row\<lparr>volume_24h_usd := 1000\<rparr>) \<le> score (scenario_row\<lparr>volume_24h_usd := 2000\<rparr>)
   \<and> score (scenario_row\<lparr>unique_traders_24h := 10\<rparr>) \<le> score (scenario_row\<lparr>unique_traders_24h := 20\<rparr>)
   \<and> score (scenario_row\<lparr>buys_24h := 5, unique_traders_24h := 5 + sells_24h scenario_row\<rparr>)
     \<le> score (scenario_row\<lparr>buys_24h := 9, unique_traders_24h := 9 + sells_24h scenario_row\<rparr>)"
proof -
  have h: "vliq_of 1000 5000 \<le> vliq_of 2000 4000"
    by (simp add: vliq_of_def eps_def)
  show ?thesis
    using h score_monotone [of 1000 5000 2000 4000 scenario_row 10 20 5 9]
    by simp
qed

text \<open>
  C5 as stated fails: with 10 buys, ten more sells raise the trader count \<open>buys + sells\<close>
  from 10 to 20 and lower the score, the buy-pressure bonus being lost.
\<close>

theorem score_traders_counterexample:
  "unique_traders_24h (scenario_row\<lparr>buys_24h := 10, sells_24h := 0, unique_traders_24h := 10\<rparr>)
     \<le> unique_traders_24h (scenario_row\<lparr>buys_24h := 10, sells_24h := 10, unique_traders_24h := 20\<rparr>)
   \<and> \<not> score (scenario_row\<lparr>buys_24h := 10, sells_24h := 0, unique_traders_24h := 10\<rparr>)
       \<le> score (scenario_row\<lparr>buys_24h := 10, sells_24h := 10, unique_traders_24h := 20\<rparr>)"
  by (simp add: score_def scenario_row_def Let_def score_vliq_def eps_def tnorm_def fdv_ok_def
      age_ok_def buy_pressure_def py_round_def round_half_even_def)

section \<open>Exit prices\<close>

lemma sl_pct_cases: "sl_pct v t = 0.22 \<or> sl_pct v t = 0.25 \<or> sl_pct v t = 0.28"
  by (simp add: sl_pct_def Let_def)

text \<open>
  C6, as the source has it. The stop-loss is 0 when the price is \<open>\<le> 0\<close>. For a positive
  price it is the cut price rounded to 12 decimals, so it exceeds the cut price by at most
  half a unit of the twelfth decimal, and it is strictly below the price as soon as the
  price is at least \<open>3e-12\<close>.
\<close>

theorem stop_loss_below_price:
  "(price \<le> 0 \<longrightarrow> compute_stop_loss price v t = 0)
 \<and> (0 < price \<longrightarrow> compute_stop_loss price v t \<le> price * (1 - sl_pct v t) + 5 / 10 ^ 13)
 \<and> (3 / 10 ^ 12 \<le> price \<longrightarrow> compute_stop_loss price v t < price)"
proof (intro conjI impI)
  show "price \<le> 0 \<Longrightarrow> compute_stop_loss price v t = 0"
    by (simp add: compute_stop_loss_def)
next
  assume "0 < price"
  then show "compute_stop_loss price v t \<le> price * (1 - sl_pct v t) + 5 / 10 ^ 13"
    using py_round_upper[of "price * (1 - sl_pct v t)" 12]
    by (simp add: compute_stop_loss_def)
next
  assume h: "3 / 10 ^ 12 \<le> price"
  then have pos: "0 < price"
    by (simp add: less_le_trans[of 0 "3 / 10 ^ 12"])
  have "22 / 100 \<le> sl_pct v t"
    using sl_pct_cases[of v t] by auto
  then have a: "price * (22 / 100) \<le> price * sl_pct v t"
    using pos by (simp add: mult_left_mono)
  have b: "(3 / 10 ^ 12) * (22 / 100) \<le> price * (22 / 100 :: real)"
    using h by simp
  have c: "compute_stop_loss price v t \<le> price * (1 - sl_pct v t) + 5 / 10 ^ 13"
    using pos py_round_upper[of "price * (1 - sl_pct v t)" 12]
    by (simp add: compute_stop_loss_def)
  have d: "price * (1 - sl_pct v t) = price - price * sl_pct v t"
    by (simp add: algebra_simps)
  have e: "(5 / 10 ^ 13 :: real) < (3 / 10 ^ 12) * (22 / 100)"
    by simp
  from a b c d e show "compute_stop_loss price v t < price"
    by linarith
qed

theorem stop_loss_below_price_witness:
  "(3 / 10 ^ 12 :: real) \<le> 1 \<and> compute_stop_loss 1 0.2 10 < 1
   \<and> (0 :: real) \<le> 0 \<and> compute_stop_loss 0 0.2 10 = 0"
  using stop_loss_below_price [of 1 "0.2" 10] stop_loss_below_price [of 0 "0.2" 10]
  by simp

text \<open>
  C6 as stated fails: at the positive price \<open>9e-13\<close> the cut price \<open>6.75e-13\<close> rounds up
  to \<open>1e-12\<close>, which is above the price.
\<close>

theorem stop_loss_tiny_price_counterexample:
  "0 < (9 / 10 ^ 13 :: real)
   \<and> \<not> compute_stop_loss (9 / 10 ^ 13) 0.2 10 < 9 / 10 ^ 13"
  by (simp add: compute_stop_loss_def py_round_def round_half_even_def Let_def sl_pct_def)

text \<open>
  C7. The cut is 25% by default, 22% when the ratio is at least 0.30 and the traders at
  least 20, 28% when the ratio is below 0.15 or the traders below 8. The source assigns the
  22% before the 28%, the specification after it; the two conditions exclude each other,
  so both orders give the same cut.
\<close>

theorem sl_pct_tiers:
  "sl_pct v t = sl_pct_spec v t
   \<and> sl_pct v t = (if v \<ge> 0.30 \<and> t \<ge> 20 then 0.22
                   else if v < 0.15 \<or> t < 8 then 0.28
                   else 0.25)
   \<and> \<not> ((v \<ge> 0.30 \<and> t \<ge> 20) \<and> (v < 0.15 \<or> t < 8))
   \<and> compute_stop_loss price v t
       = (if price \<le> 0 then 0 else py_round (price * (1 - sl_pct_spec v t)) 12)"
  by (simp add: sl_pct_def sl_pct_spec_def compute_stop_loss_def Let_def)

theorem sl_pct_tiers_witness:
  "sl_pct 0.2 10 = 0.25 \<and> sl_pct 0.3 20 = 0.22 \<and> sl_pct 0.1 50 = 0.28
   \<and> sl_pct 0.5 7 = 0.28 \<and> sl_pct_spec 0.5 7 = 0.28 \<and> sl_pct_spec 0.3 20 = 0.22"
  using sl_pct_tiers [of "0.2" 10 1] sl_pct_tiers [of "0.3" 20 1] sl_pct_tiers [of "0.1" 50 1]
    sl_pct_tiers [of "0.5" 7 1]
  by simp

lemma map_of_dict_update_fib:
  "0 < price \<Longrightarrow>
   map_of (dict_update out (fib_levels price chg)) k
     = (if k = ''fib_up_2618'' then Some (Num (py_round (price + 2.618 * fib_swing price chg) 12))
        else if k = ''fib_up_1618'' then Some (Num (py_round (price + 1.618 * fib_swing price chg) 12))
        else if k = ''fib_dn_0618'' then Some (Num (py_round (max (price - 0.618 * fib_swing price chg) 0) 12))
        else if k = ''fib_dn_0382'' then Some (Num (py_round (max (price - 0.382 * fib_swing price chg) 0) 12))
        else map_of out k)"
  by (simp add: dict_update_def fib_levels_def Let_def update_conv')

lemma add_exit_prices_shape:
  "\<exists>out. add_exit_prices r tp fdvs = dict_update out (fib_levels (price_usd r) (chg24_pct r))"
  unfolding add_exit_prices_def Let_def by blast

text \<open>
  C8, as the source has it. At price 1.0 with an unknown 24h change the swing is the
  default 10% and the levels are \<open>fib_dn_0382 = 0.9618\<close>, \<open>fib_dn_0618 = 0.9382\<close>,
  \<open>fib_up_1618 = 1.1618\<close>, \<open>fib_up_2618 = 1.2618\<close>; these are the levels that the exit
  prices of any such candidate carry.
\<close>

theorem fib_levels_default_swing:
  "fib_levels 1 None = [(''fib_dn_0382'', Num 0.9618), (''fib_dn_0618'', Num 0.9382),
                        (''fib_up_1618'', Num 1.1618), (''fib_up_2618'', Num 1.2618)]
   \<and> map_of (add_exit_prices (r\<lparr>price_usd := 1, chg24_pct := None\<rparr>) tp fdvs) ''fib_dn_0382''
       = Some (Num 0.9618)
   \<and> map_of (add_exit_prices (r\<lparr>price_usd := 1, chg24_pct := None\<rparr>) tp fdvs) ''fib_up_1618''
       = Some (Num 1.1618)
   \<and> map_of (add_exit_prices (r\<lparr>price_usd := 1, chg24_pct := None\<rparr>) tp fdvs) ''fib_up_2618''
       = Some (Num 1.2618)"
proof -
  have lv: "fib_levels 1 None = [(''fib_dn_0382'', Num 0.9618), (''fib_dn_0618'', Num 0.9382),
                        (''fib_up_1618'', Num 1.1618), (''fib_up_2618'', Num 1.2618)]"
    by (simp add: fib_levels_def fib_swing_def py_round_def round_half_even_def Let_def)
  obtain out where "add_exit_prices (r\<lparr>price_usd := 1, chg24_pct := None\<rparr>) tp fdvs
      = dict_update out (fib_levels (price_usd (r\<lparr>price_usd := 1, chg24_pct := None\<rparr>))
                                    (chg24_pct (r\<lparr>price_usd := 1, chg24_pct := None\<rparr>)))"
    using add_exit_prices_shape by blast
  then have eq: "add_exit_prices (r\<lparr>price_usd := 1, chg24_pct := None\<rparr>) tp fdvs
      = dict_update out (fib_levels 1 None)"
    by simp
  have pos: "(0::real) < 1" by simp
  show ?thesis
    unfolding eq map_of_dict_update_fib[OF pos] using lv
    by (simp add: fib_swing_def py_round_def round_half_even_def Let_def)
qed

theorem fib_levels_default_swing_witness:
  "map_of (fib_levels 1 None) ''fib_dn_0382'' = Some (Num 0.9618)
   \<and> map_of (add_exit_prices scenario_row [2, 5, 10] [25000000, 50000000]) ''fib_up_1618''
       = Some (Num 1.1618)"
  using fib_levels_default_swing [of scenario_row "[2, 5, 10]" "[25000000, 50000000]"]
  by (simp add: scenario_row_def)

text \<open>C8 as stated fails: the lower level is 0.9618, not 0.962.\<close>

theorem fib_dn_0382_counterexample:
  "map_of (fib_levels 1 None) ''fib_dn_0382'' \<noteq> Some (Num 0.962)"
  by (simp add: fib_levels_def fib_swing_def py_round_def round_half_even_def Let_def)

section \<open>One pass of the funnel\<close>

lemma gate_step_apply:
  "gate_step cfg tp fd r (items, rejects)
     = (if fst (pass_gates r cfg) then (items @ [scored tp fd r], rejects)
        else (items, rejects @ [r\<lparr>reject_reason := Some (snd (pass_gates r cfg))\<rparr>]))"
  by (simp add: gate_step_def split: prod.split)

lemma fold_gate_step:
  "fold (gate_step cfg tp fd) rows (items, rejects)
     = (items @ map (scored tp fd) (filter (\<lambda>r. fst (pass_gates r cfg)) rows),
        rejects @ map (\<lambda>r. r\<lparr>reject_reason := Some (snd (pass_gates r cfg))\<rparr>)
                      (filter (\<lambda>r. \<not> fst (pass_gates r cfg)) rows))"
proof (induction rows arbitrary: items rejects)
  case Nil
  show ?case by simp
next
  case (Cons r rows)
  show ?case
    by (simp add: gate_step_apply Cons.IH)
qed

lemma score_ignores_added_keys:
  "score (r\<lparr>score_key := s, exits := e\<rparr>) = score r"
  "score (r\<lparr>rank := k\<rparr>) = score r"
  by (simp_all add: score_def)

lemma scored_score: "score_key (scored tp fd r) = Some (score r)" "score (scored tp fd r) = score r"
  by (simp_all add: scored_def Let_def score_def)

lemma length_assign_ranks: "length (assign_ranks i xs) = length xs"
  by (induction xs arbitrary: i) simp_all

lemma nth_assign_ranks:
  "k < length xs \<Longrightarrow> assign_ranks i xs ! k = (xs ! k)\<lparr>rank := Some (i + int k)\<rparr>"
proof (induction xs arbitrary: i k)
  case Nil
  then show ?case by simp
next
  case (Cons x xs)
  then show ?case by (cases k) (simp_all add: algebra_simps)
qed

lemma run_once_eq:
  "run_once rows cfg target tp fd
     = (assign_ranks 1 (py_slice_to (sorted_desc (map (scored tp fd)
                          (filter (\<lambda>r. fst (pass_gates r cfg)) rows))) target),
        map (\<lambda>r. r\<lparr>reject_reason := Some (snd (pass_gates r cfg))\<rparr>)
            (filter (\<lambda>r. \<not> fst (pass_gates r cfg)) rows))"
  by (simp add: run_once_def fold_gate_step)

lemma sorted_desc_props:
  assumes "\<forall>x \<in> set xs. score_key x = Some (score x)"
  shows "mset (sorted_desc xs) = mset xs"
    and "sorted_wrt (\<lambda>a b. score b \<le> score a) (sorted_desc xs)"
    and "filter (\<lambda>x. score x = k) (sorted_desc xs) = filter (\<lambda>x. score x = k) xs"
proof -
  let ?f = "\<lambda>x. - the (score_key x)"
  show m: "mset (sorted_desc xs) = mset xs"
    by (simp add: sorted_desc_def)
  then have s: "set (sorted_desc xs) = set xs"
    by (metis set_mset_mset)
  have key: "\<And>x. x \<in> set xs \<Longrightarrow> ?f x = - score x"
    using assms by simp
  have "sorted (map ?f (sorted_desc xs))"
    unfolding sorted_desc_def by (rule sorted_sort_key)
  then have "sorted_wrt (\<lambda>a b. ?f a \<le> ?f b) (sorted_desc xs)"
    by (simp add: sorted_map)
  then show "sorted_wrt (\<lambda>a b. score b \<le> score a) (sorted_desc xs)"
    by (rule sorted_wrt_mono_rel[rotated]) (use key s in auto)
  have "filter (\<lambda>x. score x = k) (sorted_desc xs) = filter (\<lambda>x. ?f x = - k) (sorted_desc xs)"
    by (rule filter_cong) (use key s in auto)
  also have "\<dots> = filter (\<lambda>x. ?f x = - k) xs"
    unfolding sorted_desc_def by (rule sort_key_stable)
  also have "\<dots> = filter (\<lambda>x. score x = k) xs"
    by (rule filter_cong) (use key in auto)
  finally show "filter (\<lambda>x. score x = k) (sorted_desc xs) = filter (\<lambda>x. score x = k) xs" .
qed

text \<open>
  C2. For a non-negative target, one pass returns at most \<open>target\<close> ranked candidates. There
  is a list \<open>ys\<close>, the gate-passers (scored and priced) sorted by descending score with equal
  scores in input order, of which the ranked list is the first \<open>target\<close> elements, the one
  at position \<open>i\<close> given rank \<open>i + 1\<close>. The rejected list is, in input order, the candidates
  that fail the gate, each with its reason.
\<close>

theorem run_once_funnel:
  assumes "0 \<le> target"
  shows "\<exists>ys.
           mset ys = mset (map (scored tp fd) (filter (\<lambda>r. fst (pass_gates r cfg)) rows))
         \<and> sorted_wrt (\<lambda>a b. score b \<le> score a) ys
         \<and> (\<forall>k. filter (\<lambda>x. score x = k) ys
                  = filter (\<lambda>x. score x = k)
                      (map (scored tp fd) (filter (\<lambda>r. fst (pass_gates r cfg)) rows)))
         \<and> (\<forall>x \<in> set ys. score_key x = Some (score x))
         \<and> length (fst (run_once rows cfg target tp fd)) = min (nat target) (length ys)
         \<and> length (fst (run_once rows cfg target tp fd)) \<le> nat target
         \<and> (\<forall>i < length (fst (run_once rows cfg target tp fd)).
               fst (run_once rows cfg target tp fd) ! i = (ys ! i)\<lparr>rank := Some (int i + 1)\<rparr>)
         \<and> snd (run_once rows cfg target tp fd)
             = map (\<lambda>r. r\<lparr>reject_reason := Some (snd (pass_gates r cfg))\<rparr>)
                   (filter (\<lambda>r. \<not> fst (pass_gates r cfg)) rows)"
proof -
  let ?ps = "map (scored tp fd) (filter (\<lambda>r. fst (pass_gates r cfg)) rows)"
  let ?ys = "sorted_desc ?ps"
  have keys: "\<forall>x \<in> set ?ps. score_key x = Some (score x)"
    by (auto simp: scored_score)
  note p = sorted_desc_props[OF keys]
  have sy: "set ?ys = set ?ps"
    using p(1) by (metis set_mset_mset)
  have ranked: "fst (run_once rows cfg target tp fd) = assign_ranks 1 (take (nat target) ?ys)"
    using assms by (simp add: run_once_eq py_slice_to_def)
  have nth: "\<forall>i < length (fst (run_once rows cfg target tp fd)).
               fst (run_once rows cfg target tp fd) ! i = (?ys ! i)\<lparr>rank := Some (int i + 1)\<rparr>"
    unfolding ranked by (simp add: length_assign_ranks nth_assign_ranks add.commute)
  show ?thesis
    apply (rule exI[of _ ?ys])
    apply (intro conjI)
           apply (rule p(1))
          apply (rule p(2))
         apply (simp add: p(3))
        apply (use keys sy in blast)
       apply (simp add: ranked length_assign_ranks)
      apply (simp add: ranked length_assign_ranks)
     apply (rule nth)
    apply (simp add: run_once_eq)
    done
qed


theorem run_once_funnel_witness:
  "(0::int) \<le> 1
   \<and> length (fst (run_once [scenario_row, scenario_row\<lparr>volume_24h_usd := 4000\<rparr>,
                             scenario_row\<lparr>lp_usd := 10\<rparr>] DISCOVERY 1 [2, 5, 10]
                            [25000000, 50000000])) \<le> 1
   \<and> map reject_reason
         (snd (run_once [scenario_row, scenario_row\<lparr>volume_24h_usd := 4000\<rparr>,
                         scenario_row\<lparr>lp_usd := 10\<rparr>] DISCOVERY 1 [2, 5, 10]
                        [25000000, 50000000]))
       = [Some [Lit ''lp$'', ArgF 0 10, Lit '' outside ['', ArgR 3000, Lit '','',
                ArgR 2000000, Lit '']'']]"
proof -
  have h: "(0::int) \<le> 1" by simp
  have g: "fst (pass_gates scenario_row DISCOVERY)"
    "fst (pass_gates (scenario_row\<lparr>volume_24h_usd := 4000\<rparr>) DISCOVERY)"
    "pass_gates (scenario_row\<lparr>lp_usd := 10\<rparr>) DISCOVERY
       = (False, [Lit ''lp$'', ArgF 0 10, Lit '' outside ['', ArgR 3000, Lit '','',
                  ArgR 2000000, Lit '']''])"
    by (simp_all add: pass_gates_def scenario_row_def DISCOVERY_def vliq_of_def eps_def Let_def)
  from run_once_funnel [OF h, of "[2, 5, 10]" "[25000000, 50000000]" DISCOVERY
      "[scenario_row, scenario_row\<lparr>volume_24h_usd := 4000\<rparr>, scenario_row\<lparr>lp_usd := 10\<rparr>]"]
  show ?thesis
    using g by auto
qed

end
